theory Spec2Isabelle
  imports Complex_Main
begin

section \<open>Conventions\<close>

text \<open>
  The repository is JavaScript over a PostgreSQL table. A JavaScript number and a
  NUMERIC column are modelled as a \<^typ>\<open>real\<close> (exact arithmetic: no rounding of
  doubles, no NaN), an INTEGER score as an \<^typ>\<open>int\<close>, a timestamp (an ISO string or
  a TIMESTAMPTZ) as the \<^typ>\<open>int\<close> of its milliseconds since the epoch, and a value
  that may be \<^verbatim>\<open>null\<close>, \<^verbatim>\<open>undefined\<close> or SQL NULL as an
  \<^typ>\<open>'a option\<close>. A clock reading (\<^verbatim>\<open>Date.now()\<close>, \<^verbatim>\<open>new Date()\<close>)
  is an explicit argument of the function that reads it.
\<close>

text \<open>\<^verbatim>\<open>x || 0\<close> on a number that may be absent.\<close>

definition orZero :: "real option \<Rightarrow> real" where
  "orZero x = (case x of None \<Rightarrow> 0 | Some v \<Rightarrow> v)"

text \<open>\<^verbatim>\<open>Object.fromEntries\<close>: a later entry replaces an earlier one with its key.\<close>

definition fromEntries :: "('k \<times> 'v) list \<Rightarrow> 'k \<rightharpoonup> 'v" where
  "fromEntries kvs = map_of (rev kvs)"

section \<open>The provider payload\<close>

record point =
  pt_time :: int
  pt_value :: real

record timeframe =
  tf_accountValueHistory :: "(int \<times> real) list"
  tf_pnlHistory :: "(int \<times> real) list"

record vaultDetails =
  vd_portfolio :: "(string \<times> timeframe) list"
  vd_apr :: "real option"
  vd_vlm :: "real option"
  vd_allowDeposits :: "bool option"
  vd_maxDistributable :: "real option"

text \<open>\<^verbatim>\<open>.map(([ts, val]) => ({ time: ts, value: parseFloat(val) }))\<close>\<close>

definition toPoints :: "(int \<times> real) list \<Rightarrow> point list" where
  "toPoints h = map (\<lambda>(ts, v). \<lparr>pt_time = ts, pt_value = v\<rparr>) h"

text \<open>\<^verbatim>\<open>.filter(d => d.value > 0)\<close> after the map.\<close>

definition toNavHistory :: "(int \<times> real) list \<Rightarrow> point list" where
  "toNavHistory h = filter (\<lambda>d. pt_value d > 0) (toPoints h)"

section \<open>The seed script's ATH pass\<close>




section \<open>The normalizer\<close>

record parsed =
  pv_navHistory :: "point list"
  pv_pnlHistory :: "point list"
  pv_drawdownHistory :: "point list"
  pv_currentNav :: real
  pv_currentPnl :: real
  pv_ath :: real
  pv_currentDrawdown :: real
  pv_maxDD :: real
  pv_apr :: real
  pv_vlm :: real
  pv_allowDeposits :: "bool option"
  pv_maxDistributable :: real
  pv_portfolio :: "(string \<times> timeframe) list"

text \<open>
  The first loop of \<^verbatim>\<open>parseVaultData\<close>: the running high and the drawdown of
  every point; it returns the drawdown history and the final \<^verbatim>\<open>ath\<close>. The
  division has no guard in the source; the history it runs on holds positive values
  only, so \<^verbatim>\<open>ath\<close> is positive at every division.
\<close>

fun drawdownLoop :: "real \<Rightarrow> point list \<Rightarrow> point list \<times> real" where
  "drawdownLoop ath [] = ([], ath)"
| "drawdownLoop ath (p # ps) =
     (let ath' = (if pt_value p > ath then pt_value p else ath);
          dd = (pt_value p - ath') / ath'
      in case drawdownLoop ath' ps of
           (ds, a) \<Rightarrow> (\<lparr>pt_time = pt_time p, pt_value = dd\<rparr> # ds, a))"

text \<open>The second loop: the least drawdown, starting from 0.\<close>

definition maxDDLoop :: "point list \<Rightarrow> real" where
  "maxDDLoop ds = foldl (\<lambda>maxDD d. if pt_value d < maxDD then pt_value d else maxDD) 0 ds"

text \<open>\<^verbatim>\<open>xs[xs.length - 1]?.value || 0\<close>\<close>

definition lastValueOrZero :: "point list \<Rightarrow> real" where
  "lastValueOrZero xs = (if xs = [] then 0 else pt_value (last xs))"

definition parseVaultData :: "vaultDetails \<Rightarrow> string + parsed" where
  "parseVaultData data =
     (case fromEntries (vd_portfolio data) ''allTime'' of
        None \<Rightarrow> Inl ''No allTime portfolio data''
      | Some allTime \<Rightarrow>
          (let navHistory = toNavHistory (tf_accountValueHistory allTime);
               t0 = (case navHistory of [] \<Rightarrow> 0 | p # _ \<Rightarrow> pt_time p);
               pnlHistory = filter (\<lambda>d. pt_time d > t0) (toPoints (tf_pnlHistory allTime));
               currentNav = lastValueOrZero navHistory;
               currentPnl = lastValueOrZero pnlHistory;
               (drawdownHistory, ath) = drawdownLoop 0 navHistory;
               currentDrawdown = (if ath > 0 then (currentNav - ath) / ath else 0);
               maxDD = maxDDLoop drawdownHistory
           in Inr \<lparr>pv_navHistory = navHistory, pv_pnlHistory = pnlHistory,
                    pv_drawdownHistory = drawdownHistory, pv_currentNav = currentNav,
                    pv_currentPnl = currentPnl, pv_ath = ath,
                    pv_currentDrawdown = currentDrawdown, pv_maxDD = maxDD,
                    pv_apr = orZero (vd_apr data), pv_vlm = orZero (vd_vlm data),
                    pv_allowDeposits = vd_allowDeposits data,
                    pv_maxDistributable = orZero (vd_maxDistributable data),
                    pv_portfolio = vd_portfolio data\<rparr>))"


section \<open>The composite scorer\<close>

text \<open>\<^verbatim>\<open>Math.round\<close>: the nearest integer, a half rounded up.\<close>

definition mathRound :: "real \<Rightarrow> int" where
  "mathRound x = \<lfloor>x + 1 / 2\<rfloor>"

text \<open>\<^verbatim>\<open>x ?? 50\<close> on a sub-score that may be absent.\<close>

definition orNeutral :: "int option \<Rightarrow> int" where
  "orNeutral x = (case x of None \<Rightarrow> 50 | Some v \<Rightarrow> v)"

text \<open>
  The cascades of the drawdown, APR and funding tables. The source writes the drawdown
  and APR cascades twice, in \<^verbatim>\<open>computeSignalScores\<close> and in the seed script's
  score backfill, with the same bounds and scores.
\<close>

definition ddScoreOf :: "real \<Rightarrow> int" where
  "ddScoreOf ddPct =
     (if ddPct < 0.1 then 5
      else if ddPct < 0.5 then 15
      else if ddPct < 1 then 25
      else if ddPct < 2 then 40
      else if ddPct < 3 then 55
      else if ddPct < 5 then 70
      else if ddPct < 7 then 85
      else if ddPct < 9 then 92
      else 98)"

definition aprScoreOf :: "real \<Rightarrow> int" where
  "aprScoreOf aprPct =
     (if aprPct > 40 then 15
      else if aprPct > 25 then 30
      else if aprPct > 15 then 50
      else if aprPct > 8 then 65
      else if aprPct > 3 then 75
      else 90)"

definition fundingScoreOf :: "real \<Rightarrow> int" where
  "fundingScoreOf fundingBps =
     (if fundingBps > 5 then 90
      else if fundingBps > 2 then 75
      else if fundingBps > 0.5 then 60
      else if fundingBps > - 0.5 then 45
      else if fundingBps > - 2 then 25
      else 15)"

text \<open>
  The argument of \<^verbatim>\<open>Math.round\<close> in both scorers, and the composite itself.
\<close>

definition weightedSum :: "int \<Rightarrow> int \<Rightarrow> int \<Rightarrow> int \<Rightarrow> int \<Rightarrow> int \<Rightarrow> int \<Rightarrow> real" where
  "weightedSum ddScore tvlScore momentumScore volScore aprScore fundingScore oiScore =
     real_of_int ddScore * 0.25 +
     real_of_int tvlScore * 0.15 +
     real_of_int momentumScore * 0.15 +
     real_of_int volScore * 0.15 +
     real_of_int aprScore * 0.05 +
     real_of_int fundingScore * 0.15 +
     real_of_int oiScore * 0.10"

definition compositeOf :: "int \<Rightarrow> int \<Rightarrow> int \<Rightarrow> int \<Rightarrow> int \<Rightarrow> int \<Rightarrow> int \<Rightarrow> int" where
  "compositeOf ddScore tvlScore momentumScore volScore aprScore fundingScore oiScore =
     mathRound (weightedSum ddScore tvlScore momentumScore volScore aprScore fundingScore oiScore)"

record analytics =
  an_currentDrawdown :: real
  an_apr :: "real option"
  an_fundingRate :: "real option"
  an_tvlScore :: "int option"
  an_momentumScore :: "int option"
  an_volScore :: "int option"
  an_oiScore :: "int option"

record scores =
  sc_composite :: int
  sc_ddScore :: int
  sc_tvlScore :: int
  sc_momentumScore :: int
  sc_volScore :: int
  sc_aprScore :: int
  sc_fundingScore :: int
  sc_oiScore :: int

definition computeSignalScores :: "analytics \<Rightarrow> scores" where
  "computeSignalScores a =
     (let ddPct = \<bar>an_currentDrawdown a\<bar> * 100;
          ddScore = ddScoreOf ddPct;
          tvlScore = orNeutral (an_tvlScore a);
          momentumScore = orNeutral (an_momentumScore a);
          volScore = orNeutral (an_volScore a);
          aprPct = orZero (an_apr a) * 100;
          aprScore = aprScoreOf aprPct;
          fundingBps = orZero (an_fundingRate a) * 10000;
          fundingScore = fundingScoreOf fundingBps;
          oiScore = orNeutral (an_oiScore a);
          composite =
            compositeOf ddScore tvlScore momentumScore volScore aprScore fundingScore oiScore
      in \<lparr>sc_composite = composite, sc_ddScore = ddScore, sc_tvlScore = tvlScore,
           sc_momentumScore = momentumScore, sc_volScore = volScore, sc_aprScore = aprScore,
           sc_fundingScore = fundingScore, sc_oiScore = oiScore\<rparr>)"

section \<open>The snapshot table\<close>

text \<open>
  A row of the table \<^verbatim>\<open>snapshots\<close>, and of a query's result. A stored row
  carries its \<^verbatim>\<open>id\<close>; a row of the daily aggregate has none, and none of the
  market-context columns.
\<close>

record row =
  r_id :: "nat option"
  r_collected_at :: int
  r_nav :: real
  r_pnl :: "real option"
  r_apr :: "real option"
  r_vlm :: "real option"
  r_allow_deposits :: "bool option"
  r_nav_ath :: real
  r_drawdown_pct :: real
  r_max_drawdown :: real
  r_composite_score :: "int option"
  r_dd_score :: "int option"
  r_tvl_score :: "int option"
  r_momentum_score :: "int option"
  r_vol_score :: "int option"
  r_apr_score :: "int option"
  r_funding_rate :: "real option"
  r_open_interest :: "real option"
  r_volume_24h :: "real option"
  r_funding_score :: "int option"
  r_oi_score :: "int option"

text \<open>The object a caller passes to \<^verbatim>\<open>insertSnapshot\<close>.\<close>

record snapshot =
  s_collected_at :: "int option"
  s_nav :: real
  s_pnl :: "real option"
  s_apr :: "real option"
  s_vlm :: "real option"
  s_allow_deposits :: "bool option"
  s_nav_ath :: real
  s_drawdown_pct :: real
  s_max_drawdown :: real
  s_composite_score :: "int option"
  s_dd_score :: "int option"
  s_tvl_score :: "int option"
  s_momentum_score :: "int option"
  s_vol_score :: "int option"
  s_apr_score :: "int option"
  s_funding_rate :: "real option"
  s_open_interest :: "real option"
  s_volume_24h :: "real option"
  s_funding_score :: "int option"
  s_oi_score :: "int option"

text \<open>
  The table is its rows in insertion order and the last value of the \<^verbatim>\<open>SERIAL\<close>
  sequence of \<^verbatim>\<open>id\<close>. The unique index \<^verbatim>\<open>idx_snapshots_hourly\<close> of
  the seed script is over \<^verbatim>\<open>date_trunc('hour', collected_at AT TIME ZONE 'UTC')\<close>.
\<close>

record store =
  st_rows :: "row list"
  st_seq :: nat

definition emptyStore :: store where
  "emptyStore = \<lparr>st_rows = [], st_seq = 0\<rparr>"

definition hourOf :: "int \<Rightarrow> int" where
  "hourOf t = t div 3600000"

definition dayOf :: "int \<Rightarrow> int" where
  "dayOf t = t div 86400000"

text \<open>\<^verbatim>\<open>x || null\<close>: a zero becomes \<^verbatim>\<open>null\<close>, as an absent value does.\<close>

definition orNull :: "'a::zero option \<Rightarrow> 'a option" where
  "orNull x = (case x of None \<Rightarrow> None | Some v \<Rightarrow> if v = 0 then None else Some v)"

text \<open>\<^verbatim>\<open>data.collected_at || new Date().toISOString()\<close>\<close>

definition collectedAtOf :: "int \<Rightarrow> snapshot \<Rightarrow> int" where
  "collectedAtOf now data = (case s_collected_at data of None \<Rightarrow> now | Some t \<Rightarrow> t)"

text \<open>
  The row of the \<^verbatim>\<open>VALUES\<close> list of \<^verbatim>\<open>insertSnapshot\<close>: fifteen columns
  are named, the other five take their default, NULL.
\<close>

definition insertedRow :: "nat \<Rightarrow> int \<Rightarrow> snapshot \<Rightarrow> row" where
  "insertedRow newId now data =
     \<lparr>r_id = Some newId,
      r_collected_at = collectedAtOf now data,
      r_nav = s_nav data, r_pnl = s_pnl data, r_apr = s_apr data,
      r_vlm = orNull (s_vlm data), r_allow_deposits = s_allow_deposits data,
      r_nav_ath = s_nav_ath data, r_drawdown_pct = s_drawdown_pct data,
      r_max_drawdown = s_max_drawdown data,
      r_composite_score = orNull (s_composite_score data),
      r_dd_score = orNull (s_dd_score data),
      r_tvl_score = orNull (s_tvl_score data),
      r_momentum_score = orNull (s_momentum_score data),
      r_vol_score = orNull (s_vol_score data),
      r_apr_score = orNull (s_apr_score data),
      r_funding_rate = None, r_open_interest = None, r_volume_24h = None,
      r_funding_score = None, r_oi_score = None\<rparr>"

text \<open>
  \<^verbatim>\<open>INSERT ... ON CONFLICT (date_trunc('hour', ...)) DO NOTHING RETURNING id, collected_at\<close>
  and \<^verbatim>\<open>return result[0] || null\<close>. The sequence gives its next value to every
  attempt, as PostgreSQL evaluates the column defaults before it looks for a conflict.
\<close>

definition hourTaken :: "row list \<Rightarrow> int \<Rightarrow> bool" where
  "hourTaken rows t = (hourOf t \<in> set (map (\<lambda>r. hourOf (r_collected_at r)) rows))"

definition insertSnapshot :: "store \<Rightarrow> int \<Rightarrow> snapshot \<Rightarrow> store \<times> (nat \<times> int) option" where
  "insertSnapshot st now data =
     (let newId = st_seq st + 1;
          new = insertedRow newId now data
      in if hourTaken (st_rows st) (r_collected_at new)
         then (st\<lparr>st_seq := newId\<rparr>, None)
         else (\<lparr>st_rows = st_rows st @ [new], st_seq = newId\<rparr>,
               Some (newId, r_collected_at new)))"

section \<open>Reading the table\<close>

text \<open>The \<^verbatim>\<open>switch\<close> on \<^verbatim>\<open>range\<close> (\<open>rng\<close>): the cutoff, or none.\<close>

definition cutoffOf :: "int \<Rightarrow> string \<Rightarrow> int option" where
  "cutoffOf now rng =
     (if rng = ''24h'' then Some (now - 24 * 60 * 60 * 1000)
      else if rng = ''7d'' then Some (now - 7 * 24 * 60 * 60 * 1000)
      else if rng = ''30d'' then Some (now - 30 * 24 * 60 * 60 * 1000)
      else if rng = ''90d'' then Some (now - 90 * 24 * 60 * 60 * 1000)
      else if rng = ''1y'' then Some (now - 365 * 24 * 60 * 60 * 1000)
      else None)"

definition effectiveResolution :: "string \<Rightarrow> string \<Rightarrow> string" where
  "effectiveResolution rng resolution =
     (if resolution = ''auto''
      then (if rng = ''24h'' \<or> rng = ''7d'' then ''hourly'' else ''daily'')
      else resolution)"

text \<open>
  The SQL aggregates. \<^verbatim>\<open>AVG\<close> and \<^verbatim>\<open>bool_and\<close> skip NULL and give NULL
  when nothing is left; \<^verbatim>\<open>AVG\<close> is the exact quotient. The cast
  \<^verbatim>\<open>::integer\<close> of a \<^verbatim>\<open>numeric\<close> rounds to the nearest integer, a
  half away from zero.
\<close>

definition nonNull :: "'a option list \<Rightarrow> 'a list" where
  "nonNull xs = concat (map (\<lambda>x. case x of None \<Rightarrow> [] | Some v \<Rightarrow> [v]) xs)"

definition avgOf :: "real list \<Rightarrow> real" where
  "avgOf vs = sum_list vs / real (length vs)"

definition sqlAvg :: "real option list \<Rightarrow> real option" where
  "sqlAvg xs = (let vs = nonNull xs in if vs = [] then None else Some (avgOf vs))"

definition castInteger :: "real \<Rightarrow> int" where
  "castInteger x = (if x \<ge> 0 then \<lfloor>x + 1 / 2\<rfloor> else - \<lfloor>- x + 1 / 2\<rfloor>)"

definition sqlAvgInteger :: "int option list \<Rightarrow> int option" where
  "sqlAvgInteger xs =
     (let vs = nonNull xs
      in if vs = [] then None else Some (castInteger (avgOf (map real_of_int vs))))"

definition sqlBoolAnd :: "bool option list \<Rightarrow> bool option" where
  "sqlBoolAnd xs = (let vs = nonNull xs in if vs = [] then None else Some (list_all id vs))"

text \<open>
  One row of the daily aggregate, for the day \<open>d\<close> (days since the epoch) and its
  rows \<open>g\<close>. \<^verbatim>\<open>date_trunc('day', collected_at)\<close> is taken in the session's time
  zone, here UTC.
\<close>

definition dailyRow :: "int \<Rightarrow> row list \<Rightarrow> row" where
  "dailyRow d g =
     \<lparr>r_id = None,
      r_collected_at = d * 86400000,
      r_nav = avgOf (map r_nav g),
      r_pnl = sqlAvg (map r_pnl g),
      r_apr = sqlAvg (map r_apr g),
      r_vlm = sqlAvg (map r_vlm g),
      r_allow_deposits = sqlBoolAnd (map r_allow_deposits g),
      r_nav_ath = Max (set (map r_nav_ath g)),
      r_drawdown_pct = avgOf (map r_drawdown_pct g),
      r_max_drawdown = Min (set (map r_max_drawdown g)),
      r_composite_score = sqlAvgInteger (map r_composite_score g),
      r_dd_score = sqlAvgInteger (map r_dd_score g),
      r_tvl_score = sqlAvgInteger (map r_tvl_score g),
      r_momentum_score = sqlAvgInteger (map r_momentum_score g),
      r_vol_score = sqlAvgInteger (map r_vol_score g),
      r_apr_score = sqlAvgInteger (map r_apr_score g),
      r_funding_rate = None, r_open_interest = None, r_volume_24h = None,
      r_funding_score = None, r_oi_score = None\<rparr>"

text \<open>\<^verbatim>\<open>GROUP BY date_trunc('day', collected_at) ORDER BY collected_at ASC\<close>\<close>

definition dayRows :: "row list \<Rightarrow> int \<Rightarrow> row list" where
  "dayRows rows d = filter (\<lambda>r. dayOf (r_collected_at r) = d) rows"

definition daysOf :: "row list \<Rightarrow> int list" where
  "daysOf rows = sort (remdups (map (\<lambda>r. dayOf (r_collected_at r)) rows))"

definition dailyAggregate :: "row list \<Rightarrow> row list" where
  "dailyAggregate rows = map (\<lambda>d. dailyRow d (dayRows rows d)) (daysOf rows)"

text \<open>\<^verbatim>\<open>WHERE collected_at >= cutoff\<close>, when there is a cutoff.\<close>

definition sinceCutoff :: "int option \<Rightarrow> row list \<Rightarrow> row list" where
  "sinceCutoff cutoff rows =
     (case cutoff of None \<Rightarrow> rows | Some c \<Rightarrow> filter (\<lambda>r. r_collected_at r \<ge> c) rows)"

definition getSnapshots :: "store \<Rightarrow> int \<Rightarrow> string \<Rightarrow> string \<Rightarrow> row list" where
  "getSnapshots st now rng resolution =
     (let cutoff = cutoffOf now rng;
          resolution' = effectiveResolution rng resolution
      in if resolution' = ''daily'' \<and> cutoff \<noteq> None
           then dailyAggregate (sinceCutoff cutoff (st_rows st))
         else if resolution' = ''daily'' \<and> cutoff = None
           then dailyAggregate (st_rows st)
         else if cutoff \<noteq> None
           then sort_key r_collected_at (sinceCutoff cutoff (st_rows st))
         else sort_key r_collected_at (st_rows st))"

section \<open>The trailing signal calculator\<close>

definition tvlScoreOf :: "real \<Rightarrow> int" where
  "tvlScoreOf tvl7 =
     (if tvl7 > 3 then 10
      else if tvl7 > 1 then 25
      else if tvl7 > 0 then 40
      else if tvl7 > - 1 then 55
      else if tvl7 > - 3 then 70
      else if tvl7 > - 5 then 85
      else 95)"

definition momentumScoreOf :: "real \<Rightarrow> int" where
  "momentumScoreOf recent7Avg =
     (if recent7Avg > 0.003 then 10
      else if recent7Avg > 0.001 then 25
      else if recent7Avg > 0 then 40
      else if recent7Avg > - 0.001 then 55
      else if recent7Avg > - 0.003 then 70
      else if recent7Avg > - 0.01 then 85
      else 95)"

definition volScoreOf :: "real \<Rightarrow> real \<Rightarrow> int" where
  "volScoreOf volTrend vol7dAnnualized =
     (if volTrend < - 0.3 \<and> vol7dAnnualized > 10 then 90
      else if volTrend < - 0.1 then 70
      else if \<bar>volTrend\<bar> < 0.1 then 50
      else if volTrend < 0.3 then 35
      else 15)"

definition oiScoreOf :: "real \<Rightarrow> int" where
  "oiScoreOf oiChange =
     (if oiChange > 0.10 then 90
      else if oiChange > 0.03 then 70
      else if oiChange > - 0.03 then 50
      else if oiChange > - 0.05 then 30
      else 15)"

text \<open>\<^verbatim>\<open>xs.slice(-n)\<close>: the last \<open>n\<close> elements, all of them when there are fewer.\<close>

definition sliceLast :: "nat \<Rightarrow> 'a list \<Rightarrow> 'a list" where
  "sliceLast n xs = drop (length xs - n) xs"

text \<open>The loop over consecutive NAVs: a return is pushed when the earlier NAV is positive.\<close>

fun returnsOf :: "real list \<Rightarrow> real list" where
  "returnsOf (prevNav # currNav # rest) =
     (if prevNav > 0 then (currNav - prevNav) / prevNav # returnsOf (currNav # rest)
      else returnsOf (currNav # rest))"
| "returnsOf _ = []"

text \<open>\<^verbatim>\<open>xs.length > 0 ? xs.reduce((s, v) => s + v, 0) / xs.length : 0\<close>\<close>

definition meanOrZero :: "real list \<Rightarrow> real" where
  "meanOrZero xs = (if length xs > 0 then sum_list xs / real (length xs) else 0)"

definition sampleVariance :: "real list \<Rightarrow> real" where
  "sampleVariance xs =
     (let avg = meanOrZero xs
      in if length xs > 1
         then sum_list (map (\<lambda>v. (v - avg) ^ 2) xs) / real (length xs - 1)
         else 0)"

definition sevenDays :: int where
  "sevenDays = 7 * 24 * 3600 * 1000"

definition tvl7Of :: "row list \<Rightarrow> real \<Rightarrow> real" where
  "tvl7Of snap7d currentNav =
     (let nav7dAgo = (case snap7d of [] \<Rightarrow> currentNav | s # _ \<Rightarrow> r_nav s)
      in if nav7dAgo > 0 then ((currentNav - nav7dAgo) / nav7dAgo) * 100 else 0)"

definition volScoreOfReturns :: "real list \<Rightarrow> int" where
  "volScoreOfReturns returns =
     (let currentVol = sqrt (sampleVariance returns);
          firstHalf = take (length returns div 2) returns;
          priorVol = sqrt (sampleVariance firstHalf);
          volTrend = (if priorVol > 0 then (currentVol - priorVol) / priorVol else 0);
          vol7dAnnualized = currentVol * sqrt 365 * 100
      in volScoreOf volTrend vol7dAnnualized)"

text \<open>A row counts for the open-interest trend when its open interest is there and positive.\<close>

definition hasOI :: "row \<Rightarrow> bool" where
  "hasOI s = (case r_open_interest s of None \<Rightarrow> False | Some v \<Rightarrow> v > 0)"

definition oiTrendScore :: "row list \<Rightarrow> int \<Rightarrow> int" where
  "oiTrendScore snapshots now =
     (let snapsWithOI = filter hasOI snapshots
      in if length snapsWithOI \<ge> 2
         then (let latestOI = orZero (r_open_interest (last snapsWithOI));
                   sevenDaysAgoTime = now - sevenDays;
                   snap7dOI = filter (\<lambda>s. r_collected_at s \<ge> sevenDaysAgoTime) snapsWithOI;
                   oiAgo = (case snap7dOI of [] \<Rightarrow> latestOI
                            | s # _ \<Rightarrow> orZero (r_open_interest s))
               in if oiAgo > 0 then oiScoreOf ((latestOI - oiAgo) / oiAgo) else 50)
         else 50)"

text \<open>
  The object \<^verbatim>\<open>computeTrailingSignals\<close> returns: \<^verbatim>\<open>oiScore\<close> is a key of
  the object of the last \<^verbatim>\<open>return\<close> only.
\<close>

record trailing =
  tr_tvlScore :: int
  tr_momentumScore :: int
  tr_volScore :: int
  tr_oiScore :: "int option"

text \<open>
  \<open>snapshots\<close> is \<open>None\<close> for \<^verbatim>\<open>null\<close> or \<^verbatim>\<open>undefined\<close>; \<open>now\<close> is
  the value of \<^verbatim>\<open>Date.now()\<close> at the call.
\<close>

definition computeTrailingSignals :: "row list option \<Rightarrow> real \<Rightarrow> int \<Rightarrow> trailing" where
  "computeTrailingSignals snapshotsOpt currentNav now =
     (case snapshotsOpt of
        None \<Rightarrow> \<lparr>tr_tvlScore = 50, tr_momentumScore = 50, tr_volScore = 50, tr_oiScore = None\<rparr>
      | Some snapshots \<Rightarrow>
          if length snapshots < 2
          then \<lparr>tr_tvlScore = 50, tr_momentumScore = 50, tr_volScore = 50, tr_oiScore = None\<rparr>
          else (let snap7d = filter (\<lambda>s. r_collected_at s \<ge> now - sevenDays) snapshots;
                    tvlScore = tvlScoreOf (tvl7Of snap7d currentNav);
                    recent = sliceLast 30 snapshots;
                    returns = returnsOf (map r_nav recent);
                    recent7Returns = sliceLast 7 returns;
                    recent7Avg = meanOrZero recent7Returns;
                    momentumScore = momentumScoreOf recent7Avg;
                    volScore = volScoreOfReturns returns;
                    oiScore = oiTrendScore snapshots now
                in \<lparr>tr_tvlScore = tvlScore, tr_momentumScore = momentumScore,
                     tr_volScore = volScore, tr_oiScore = Some oiScore\<rparr>))"

section \<open>The seed script's score backfill\<close>

text \<open>
  The body of the loop over the rows without a composite score, for one row: \<open>None\<close>
  is the \<^verbatim>\<open>continue\<close> of a row with fewer than two rows in its trailing window.
  \<open>allSnaps\<close> are all rows, oldest first.
\<close>

definition thirtyDays :: int where
  "thirtyDays = 30 * 24 * 3600 * 1000"

definition seedScores :: "row list \<Rightarrow> row \<Rightarrow> scores option" where
  "seedScores allSnaps row =
     (let rowTime = r_collected_at row;
          thirtyDaysAgo = rowTime - thirtyDays;
          trailing = filter (\<lambda>s. r_collected_at s \<ge> thirtyDaysAgo \<and> r_collected_at s \<le> rowTime)
                       allSnaps
      in if length trailing < 2 then None
         else (let currentNav = r_nav row;
                   currentDrawdown = r_drawdown_pct row;
                   now = rowTime;
                   snap7d = filter (\<lambda>s. r_collected_at s \<ge> now - sevenDays) trailing;
                   tvlScore = tvlScoreOf (tvl7Of snap7d currentNav);
                   returns = returnsOf (map r_nav trailing);
                   recent7Returns = sliceLast 7 returns;
                   recent7Avg = meanOrZero recent7Returns;
                   momentumScore = momentumScoreOf recent7Avg;
                   volScore = volScoreOfReturns returns;
                   ddPct = \<bar>currentDrawdown\<bar> * 100;
                   ddScore = ddScoreOf ddPct;
                   aprScore = (case r_apr row of None \<Rightarrow> 50 | Some a \<Rightarrow> aprScoreOf (a * 100));
                   fundingScore = 50;
                   oiScore = 50;
                   composite =
                     compositeOf ddScore tvlScore momentumScore volScore aprScore fundingScore
                       oiScore
               in Some \<lparr>sc_composite = composite, sc_ddScore = ddScore, sc_tvlScore = tvlScore,
                         sc_momentumScore = momentumScore, sc_volScore = volScore,
                         sc_aprScore = aprScore, sc_fundingScore = fundingScore,
                         sc_oiScore = oiScore\<rparr>))"

section \<open>The ingestion endpoint\<close>

record marketCtx =
  mc_fundingRate :: real
  mc_openInterest :: real
  mc_volume24h :: real

record request =
  rq_method :: string
  rq_authorization :: "string option"

record env =
  env_CRON_SECRET :: "string option"
  env_DATABASE_URL :: "string option"

text \<open>
  The four readings of the clock in one run of the handler: in \<^verbatim>\<open>getSnapshots\<close>,
  in \<^verbatim>\<open>computeTrailingSignals\<close>, for the snapshot's \<^verbatim>\<open>collected_at\<close>
  and for the gap-fill's \<^verbatim>\<open>getUTCHours()\<close>.
\<close>

record clock =
  ck_read :: int
  ck_signals :: int
  ck_snapshot :: int
  ck_hour :: int

record collect_body =
  cb_success :: bool
  cb_snapshot :: "(nat \<times> int) + snapshot"
  cb_skipped :: bool
  cb_gapFilled :: nat

datatype response =
  EndOk
  | Unauthorized
  | ServerError string
  | CollectOk collect_body

text \<open>\<^verbatim>\<open>parseAllTimeframes\<close>: the histories of the five named timeframes that are there.\<close>

definition parseAllTimeframes :: "vaultDetails \<Rightarrow> string \<rightharpoonup> (point list \<times> point list)" where
  "parseAllTimeframes data tf =
     (if tf \<in> set [''allTime'', ''perpAllTime'', ''month'', ''week'', ''day'']
      then (case fromEntries (vd_portfolio data) tf of
              None \<Rightarrow> None
            | Some tfData \<Rightarrow>
                Some (toNavHistory (tf_accountValueHistory tfData),
                      toPoints (tf_pnlHistory tfData)))
      else None)"

text \<open>
  \<^verbatim>\<open>new Date(t).toISOString()\<close> throws a RangeError on a time value beyond
  8.64e15 milliseconds from the epoch.
\<close>

definition validTime :: "int \<Rightarrow> bool" where
  "validTime t = (\<bar>t\<bar> \<le> 8640000000000000)"

text \<open>
  The gap-fill's loop over the points of one timeframe. The flag is False when
  \<^verbatim>\<open>toISOString\<close> threw: the \<^verbatim>\<open>catch\<close> around the gap-fill ends it there,
  with the rows written so far.
\<close>

fun gapFillPoints ::
  "int \<Rightarrow> (int \<rightharpoonup> real) \<Rightarrow> real \<Rightarrow> real \<Rightarrow> point list \<Rightarrow> store \<times> nat \<Rightarrow> (store \<times> nat) \<times> bool" where
  "gapFillPoints now pnlMap ath maxDD [] acc = (acc, True)"
| "gapFillPoints now pnlMap ath maxDD (p # ps) (st, gapFilled) =
     (let ath' = (if pt_value p > ath then pt_value p else ath);
          dd = (if ath' > 0 then (pt_value p - ath') / ath' else 0);
          maxDD' = (if dd < maxDD then dd else maxDD)
      in if \<not> validTime (pt_time p) then ((st, gapFilled), False)
         else (let gapSnapshot =
                     \<lparr>s_collected_at = Some (pt_time p), s_nav = pt_value p,
                      s_pnl = pnlMap (pt_time p), s_apr = None, s_vlm = None,
                      s_allow_deposits = Some True, s_nav_ath = ath', s_drawdown_pct = dd,
                      s_max_drawdown = maxDD', s_composite_score = None, s_dd_score = None,
                      s_tvl_score = None, s_momentum_score = None, s_vol_score = None,
                      s_apr_score = None, s_funding_rate = None, s_open_interest = None,
                      s_volume_24h = None, s_funding_score = None, s_oi_score = None\<rparr>
               in case insertSnapshot st now gapSnapshot of
                    (st', gapInserted) \<Rightarrow>
                      gapFillPoints now pnlMap ath' maxDD' ps
                        (st', if gapInserted \<noteq> None then gapFilled + 1 else gapFilled)))"

fun gapFillTimeframes ::
  "int \<Rightarrow> (string \<rightharpoonup> (point list \<times> point list)) \<Rightarrow> string list \<Rightarrow> store \<times> nat \<Rightarrow> store \<times> nat" where
  "gapFillTimeframes now timeframes [] acc = acc"
| "gapFillTimeframes now timeframes (tf # tfs) acc =
     (case timeframes tf of
        None \<Rightarrow> gapFillTimeframes now timeframes tfs acc
      | Some (navHistory, pnlHistory) \<Rightarrow>
          (let pnlMap = fromEntries (map (\<lambda>p. (pt_time p, pt_value p)) pnlHistory)
           in case gapFillPoints now pnlMap 0 0 navHistory acc of
                (acc', finished) \<Rightarrow>
                  if finished then gapFillTimeframes now timeframes tfs acc' else acc'))"

definition gapFill :: "int \<Rightarrow> vaultDetails \<Rightarrow> store \<Rightarrow> store \<times> nat" where
  "gapFill now raw st =
     gapFillTimeframes now (parseAllTimeframes raw) [''month'', ''week''] (st, 0)"

text \<open>\<^verbatim>\<open>cronSecret && authHeader !== `Bearer ${cronSecret}`\<close>\<close>

definition unauthorized :: "env \<Rightarrow> request \<Rightarrow> bool" where
  "unauthorized e req =
     (case env_CRON_SECRET e of
        None \<Rightarrow> False
      | Some cronSecret \<Rightarrow>
          cronSecret \<noteq> [] \<and> rq_authorization req \<noteq> Some (''Bearer '' @ cronSecret))"

definition getUTCHours :: "int \<Rightarrow> int" where
  "getUTCHours t = (t div 3600000) mod 24"

text \<open>The snapshot row the handler builds.\<close>

definition buildSnapshot :: "int \<Rightarrow> parsed \<Rightarrow> scores \<Rightarrow> marketCtx \<Rightarrow> snapshot" where
  "buildSnapshot now p sc m =
     \<lparr>s_collected_at = Some now,
      s_nav = pv_currentNav p,
      s_pnl = Some (pv_currentPnl p),
      s_apr = Some (pv_apr p),
      s_vlm = Some (pv_vlm p),
      s_allow_deposits = Some (pv_allowDeposits p \<noteq> Some False),
      s_nav_ath = pv_ath p,
      s_drawdown_pct = pv_currentDrawdown p,
      s_max_drawdown = pv_maxDD p,
      s_composite_score = Some (sc_composite sc),
      s_dd_score = Some (sc_ddScore sc),
      s_tvl_score = Some (sc_tvlScore sc),
      s_momentum_score = Some (sc_momentumScore sc),
      s_vol_score = Some (sc_volScore sc),
      s_apr_score = Some (sc_aprScore sc),
      s_funding_rate = Some (mc_fundingRate m),
      s_open_interest = Some (mc_openInterest m),
      s_volume_24h = Some (mc_volume24h m),
      s_funding_score = Some (sc_fundingScore sc),
      s_oi_score = Some (sc_oiScore sc)\<rparr>"

text \<open>
  The handler of \<^verbatim>\<open>POST /collect\<close>. The two provider requests are its arguments:
  \<open>Inl\<close> is the message of a failed request. A failed market-context request becomes
  zeros; every other failure inside the \<^verbatim>\<open>try\<close> is the 500 response.
\<close>

definition handler ::
  "env \<Rightarrow> request \<Rightarrow> string + vaultDetails \<Rightarrow> string + marketCtx \<Rightarrow> clock \<Rightarrow> store
     \<Rightarrow> store \<times> response" where
  "handler e req vaultFetch marketFetch ck st =
     (if rq_method req = ''OPTIONS'' then (st, EndOk)
      else if unauthorized e req then (st, Unauthorized)
      else if env_DATABASE_URL e = None \<or> env_DATABASE_URL e = Some []
        then (st, ServerError ''DATABASE_URL environment variable is not set'')
      else
        (case vaultFetch of
           Inl msg \<Rightarrow> (st, ServerError msg)
         | Inr raw \<Rightarrow>
             (let marketCtx =
                    (case marketFetch of
                       Inl _ \<Rightarrow> \<lparr>mc_fundingRate = 0, mc_openInterest = 0, mc_volume24h = 0\<rparr>
                     | Inr m \<Rightarrow> m)
              in case parseVaultData raw of
                   Inl msg \<Rightarrow> (st, ServerError msg)
                 | Inr parsed \<Rightarrow>
                     (let trailing = getSnapshots st (ck_read ck) ''30d'' ''hourly'';
                          trailingSignals =
                            computeTrailingSignals (Some trailing) (pv_currentNav parsed)
                              (ck_signals ck);
                          scores =
                            computeSignalScores
                              \<lparr>an_currentDrawdown = pv_currentDrawdown parsed,
                               an_apr = Some (pv_apr parsed),
                               an_fundingRate = Some (mc_fundingRate marketCtx),
                               an_tvlScore = Some (tr_tvlScore trailingSignals),
                               an_momentumScore = Some (tr_momentumScore trailingSignals),
                               an_volScore = Some (tr_volScore trailingSignals),
                               an_oiScore = tr_oiScore trailingSignals\<rparr>;
                          snapshot = buildSnapshot (ck_snapshot ck) parsed scores marketCtx
                      in case insertSnapshot st (ck_snapshot ck) snapshot of
                           (st1, inserted) \<Rightarrow>
                             (case (if getUTCHours (ck_hour ck) = 0
                                    then gapFill (ck_snapshot ck) raw st1 else (st1, 0)) of
                                (st2, gapFilled) \<Rightarrow>
                                  (st2,
                                   CollectOk
                                     \<lparr>cb_success = True,
                                      cb_snapshot =
                                        (case inserted of
                                           None \<Rightarrow> Inr snapshot
                                         | Some r \<Rightarrow> Inl r),
                                      cb_skipped = (inserted = None),
                                      cb_gapFilled = gapFilled\<rparr>))))))"

section \<open>Example inputs\<close>

text \<open>The NAV history 100, 110, 90, 95 of the specification, and a payload that carries it.\<close>

definition example_history :: "(int \<times> real) list" where
  "example_history = [(1, 100), (2, 110), (3, 90), (4, 95)]"

definition example_payload :: vaultDetails where
  "example_payload =
     \<lparr>vd_portfolio =
        [(''allTime'', \<lparr>tf_accountValueHistory = example_history, tf_pnlHistory = []\<rparr>)],
      vd_apr = None, vd_vlm = None, vd_allowDeposits = None, vd_maxDistributable = None\<rparr>"

text \<open>Rows, a snapshot and an analytics object for the evaluations below.\<close>

definition example_row :: "int \<Rightarrow> real \<Rightarrow> row" where
  "example_row t v =
     \<lparr>r_id = None, r_collected_at = t, r_nav = v, r_pnl = None, r_apr = None, r_vlm = None,
      r_allow_deposits = Some True, r_nav_ath = v, r_drawdown_pct = 0, r_max_drawdown = 0,
      r_composite_score = None, r_dd_score = None, r_tvl_score = None,
      r_momentum_score = None, r_vol_score = None, r_apr_score = None,
      r_funding_rate = None, r_open_interest = None, r_volume_24h = None,
      r_funding_score = None, r_oi_score = None\<rparr>"

definition example_snapshot :: snapshot where
  "example_snapshot =
     \<lparr>s_collected_at = Some 3600000, s_nav = 100, s_pnl = Some 5, s_apr = Some 0.2,
      s_vlm = Some 1000, s_allow_deposits = Some True, s_nav_ath = 100, s_drawdown_pct = 0,
      s_max_drawdown = 0, s_composite_score = Some 42, s_dd_score = Some 5,
      s_tvl_score = Some 50, s_momentum_score = Some 50, s_vol_score = Some 50,
      s_apr_score = Some 50, s_funding_rate = Some 0.0001, s_open_interest = Some 1000000,
      s_volume_24h = Some 2000000, s_funding_score = Some 60, s_oi_score = Some 50\<rparr>"

definition example_analytics :: analytics where
  "example_analytics =
     \<lparr>an_currentDrawdown = 0, an_apr = None, an_fundingRate = None, an_tvlScore = Some 50,
      an_momentumScore = Some 50, an_volScore = Some 50, an_oiScore = Some 50\<rparr>"

definition example_trailing :: "row list" where
  "example_trailing = [example_row 0 100, example_row 86400000 200]"

text \<open>A configured environment, a request and a clock whose four readings agree.\<close>

definition example_env :: env where
  "example_env = \<lparr>env_CRON_SECRET = None, env_DATABASE_URL = Some ''postgres''\<rparr>"

definition example_request :: request where
  "example_request = \<lparr>rq_method = ''POST'', rq_authorization = None\<rparr>"

definition example_clock :: "int \<Rightarrow> clock" where
  "example_clock t = \<lparr>ck_read = t, ck_signals = t, ck_snapshot = t, ck_hour = t\<rparr>"


definition example_week_store :: store where
  "example_week_store =
     \<lparr>st_rows =
        [(example_row 0 100)\<lparr>r_id := Some 1\<rparr>,
         (example_row 694800000 101)\<lparr>r_id := Some 2\<rparr>,
         (example_row 698400000 102)\<lparr>r_id := Some 3\<rparr>,
         (example_row 702000000 103)\<lparr>r_id := Some 4\<rparr>],
      st_seq = 4\<rparr>"

section \<open>The running high and the drawdowns (C1)\<close>



























lemma example_parse:
  "\<exists>r. parseVaultData example_payload = Inr r
      \<and> pv_ath r = 110 \<and> pv_maxDD r = - (2 / 11)
      \<and> map pt_value (pv_drawdownHistory r) = [0, 0, - (2 / 11), - (3 / 22)]"
  by (simp add: parseVaultData_def example_payload_def fromEntries_def toNavHistory_def
        toPoints_def example_history_def Let_def maxDDLoop_def lastValueOrZero_def)



section \<open>The composite score (C2)\<close>















lemma computeSignalScores_fields:
  "sc_ddScore (computeSignalScores a) = ddScoreOf (\<bar>an_currentDrawdown a\<bar> * 100)"
  "sc_tvlScore (computeSignalScores a) = orNeutral (an_tvlScore a)"
  "sc_momentumScore (computeSignalScores a) = orNeutral (an_momentumScore a)"
  "sc_volScore (computeSignalScores a) = orNeutral (an_volScore a)"
  "sc_aprScore (computeSignalScores a) = aprScoreOf (orZero (an_apr a) * 100)"
  "sc_fundingScore (computeSignalScores a) = fundingScoreOf (orZero (an_fundingRate a) * 10000)"
  "sc_oiScore (computeSignalScores a) = orNeutral (an_oiScore a)"
  by (simp_all add: computeSignalScores_def Let_def)

lemma seedScores_neutral:
  "seedScores allSnaps row = Some sc \<Longrightarrow>
     sc_aprScore sc = (case r_apr row of None \<Rightarrow> 50 | Some a \<Rightarrow> aprScoreOf (a * 100))
     \<and> sc_fundingScore sc = 50 \<and> sc_oiScore sc = 50"
  by (auto simp: seedScores_def Let_def split: if_splits)






section \<open>The trailing signals of a short history (C3)\<close>

text \<open>
  Claim C3. With fewer than two history points \<^verbatim>\<open>computeTrailingSignals\<close> returns
  \<open>tvlScore = 50\<close>, \<open>momentumScore = 50\<close> and \<open>volScore = 50\<close>, and no
  \<open>oiScore\<close> at all: the object of the early \<^verbatim>\<open>return\<close> has three keys.
  With two points or more the object carries an \<open>oiScore\<close>.
\<close>

theorem trailing_signals_short_history_omits_oiScore:
  "computeTrailingSignals (Some [example_row 0 100]) 100 3600000
     = \<lparr>tr_tvlScore = 50, tr_momentumScore = 50, tr_volScore = 50, tr_oiScore = None\<rparr>
   \<and> computeTrailingSignals (Some [s]) currentNav now
     = \<lparr>tr_tvlScore = 50, tr_momentumScore = 50, tr_volScore = 50, tr_oiScore = None\<rparr>
   \<and> computeTrailingSignals (Some []) currentNav now
     = \<lparr>tr_tvlScore = 50, tr_momentumScore = 50, tr_volScore = 50, tr_oiScore = None\<rparr>
   \<and> computeTrailingSignals None currentNav now
     = \<lparr>tr_tvlScore = 50, tr_momentumScore = 50, tr_volScore = 50, tr_oiScore = None\<rparr>
   \<and> tr_oiScore (computeTrailingSignals (Some [example_row 0 100, example_row 3600000 101])
        101 7200000) = Some 50"
  by (simp add: computeTrailingSignals_def example_row_def Let_def oiTrendScore_def hasOI_def)

section \<open>One row per hour (C4)\<close>

lemma insertSnapshot_taken:
  "hourTaken (st_rows st) (collectedAtOf now data) \<Longrightarrow>
   insertSnapshot st now data = (st\<lparr>st_seq := st_seq st + 1\<rparr>, None)"
  by (simp add: insertSnapshot_def Let_def insertedRow_def)

lemma insertSnapshot_free:
  "\<not> hourTaken (st_rows st) (collectedAtOf now data) \<Longrightarrow>
   insertSnapshot st now data
     = (\<lparr>st_rows = st_rows st @ [insertedRow (st_seq st + 1) now data], st_seq = st_seq st + 1\<rparr>,
        Some (st_seq st + 1, collectedAtOf now data))"
  by (simp add: insertSnapshot_def Let_def insertedRow_def)

lemma insertedRow_collected_at [simp]:
  "r_collected_at (insertedRow i now data) = collectedAtOf now data"
  by (simp add: insertedRow_def)

lemma hourTaken_append:
  "hourTaken (rows @ [r]) t \<longleftrightarrow> hourTaken rows t \<or> hourOf t = hourOf (r_collected_at r)"
  by (auto simp: hourTaken_def)

lemma insertSnapshot_result:
  "snd (insertSnapshot st now data) = None \<longleftrightarrow> hourTaken (st_rows st) (collectedAtOf now data)"
  by (cases "hourTaken (st_rows st) (collectedAtOf now data)")
     (simp_all add: insertSnapshot_taken insertSnapshot_free)

lemma insertSnapshot_hour_kept:
  "hourTaken (st_rows st) t \<Longrightarrow> hourTaken (st_rows (fst (insertSnapshot st now data))) t"
  by (cases "hourTaken (st_rows st) (collectedAtOf now data)")
     (simp_all add: insertSnapshot_taken insertSnapshot_free hourTaken_append)

lemma insertSnapshot_hour_filled:
  "hourTaken (st_rows (fst (insertSnapshot st now data))) (collectedAtOf now data)"
  by (cases "hourTaken (st_rows st) (collectedAtOf now data)")
     (simp_all add: insertSnapshot_taken insertSnapshot_free hourTaken_append)

lemma hourTaken_same_hour: "hourOf t = hourOf t' \<Longrightarrow> hourTaken rows t = hourTaken rows t'"
  by (simp add: hourTaken_def)

lemma insertSnapshot_unique:
  assumes "distinct (map (\<lambda>r. hourOf (r_collected_at r)) (st_rows st))"
  shows "distinct (map (\<lambda>r. hourOf (r_collected_at r)) (st_rows (fst (insertSnapshot st now data))))"
proof (cases "hourTaken (st_rows st) (collectedAtOf now data)")
  case True
  then show ?thesis using assms by (simp add: insertSnapshot_taken)
next
  case False
  then show ?thesis using assms by (simp add: insertSnapshot_free) (simp add: hourTaken_def)
qed

lemma one_of_distinct_key:
  "distinct (map f xs) \<Longrightarrow> k \<in> set (map f xs) \<Longrightarrow> length (filter (\<lambda>x. f x = k) xs) = 1"
proof (induction xs)
  case Nil
  then show ?case by simp
next
  case (Cons x xs)
  show ?case
  proof (cases "f x = k")
    case True
    with Cons.prems have "k \<notin> f ` set xs" by auto
    then have "filter (\<lambda>x. f x = k) xs = []" by (auto simp: filter_empty_conv)
    with True show ?thesis by simp
  next
    case False
    with Cons show ?thesis by auto
  qed
qed

lemma one_row_of_hour:
  assumes "distinct (map (\<lambda>r. hourOf (r_collected_at r)) rows)" and "hourTaken rows t"
  shows "length (filter (\<lambda>r. hourOf (r_collected_at r) = hourOf t) rows) = 1"
  using assms unfolding hourTaken_def by (rule one_of_distinct_key)

lemma gapFillPoints_hour_kept:
  "hourTaken (st_rows (fst acc)) t \<Longrightarrow>
   hourTaken (st_rows (fst (fst (gapFillPoints now pnlMap ath maxDD ps acc)))) t"
proof (induction ps arbitrary: ath maxDD acc)
  case Nil
  then show ?case by simp
next
  case (Cons p ps)
  obtain st n where acc: "acc = (st, n)" by (cases acc)
  show ?case
  proof (cases "validTime (pt_time p)")
    case False
    with Cons.prems acc show ?thesis by (simp add: Let_def)
  next
    case True
    define ath' where "ath' = (if pt_value p > ath then pt_value p else ath)"
    define dd where "dd = (if ath' > 0 then (pt_value p - ath') / ath' else 0)"
    define maxDD' where "maxDD' = (if dd < maxDD then dd else maxDD)"
    define snap where "snap =
        \<lparr>s_collected_at = Some (pt_time p), s_nav = pt_value p,
         s_pnl = pnlMap (pt_time p), s_apr = None, s_vlm = None,
         s_allow_deposits = Some True, s_nav_ath = ath', s_drawdown_pct = dd,
         s_max_drawdown = maxDD', s_composite_score = None, s_dd_score = None,
         s_tvl_score = None, s_momentum_score = None, s_vol_score = None,
         s_apr_score = None, s_funding_rate = None, s_open_interest = None,
         s_volume_24h = None, s_funding_score = None, s_oi_score = None\<rparr>"
    obtain st' ins where ins: "insertSnapshot st now snap = (st', ins)"
      by (cases "insertSnapshot st now snap")
    have step: "gapFillPoints now pnlMap ath maxDD (p # ps) acc
        = gapFillPoints now pnlMap ath' maxDD' ps (st', if ins \<noteq> None then n + 1 else n)"
      using True ins unfolding acc gapFillPoints.simps Let_def
      by (simp only: ath'_def[symmetric] dd_def[symmetric] maxDD'_def[symmetric]
            snap_def[symmetric] ins) simp
    have "hourTaken (st_rows st') t"
      using insertSnapshot_hour_kept[of st t now snap] Cons.prems acc ins by simp
    then show ?thesis unfolding step by (intro Cons.IH) simp
  qed
qed

lemma gapFillTimeframes_hour_kept:
  "hourTaken (st_rows (fst acc)) t \<Longrightarrow>
   hourTaken (st_rows (fst (gapFillTimeframes now tfs names acc))) t"
proof (induction names arbitrary: acc)
  case Nil
  then show ?case by simp
next
  case (Cons tf names)
  show ?case
  proof (cases "tfs tf")
    case None
    then show ?thesis using Cons by simp
  next
    case (Some hs)
    obtain navHistory pnlHistory where hs: "hs = (navHistory, pnlHistory)" by (cases hs)
    define pm where "pm = fromEntries (map (\<lambda>p. (pt_time p, pt_value p)) pnlHistory)"
    obtain acc' fin where g: "gapFillPoints now pm 0 0 navHistory acc = (acc', fin)"
      by (cases "gapFillPoints now pm 0 0 navHistory acc")
    have k: "hourTaken (st_rows (fst acc')) t"
      using gapFillPoints_hour_kept[OF Cons.prems, of now pm 0 0 navHistory] g by simp
    show ?thesis
      using Some hs g k Cons.IH[OF k]
      by (simp add: Let_def pm_def[symmetric])
  qed
qed

lemma gapFill_hour_kept:
  "hourTaken (st_rows st) t \<Longrightarrow> hourTaken (st_rows (fst (gapFill now raw st))) t"
  unfolding gapFill_def by (rule gapFillTimeframes_hour_kept) simp

lemma buildSnapshot_collected_at [simp]:
  "collectedAtOf now (buildSnapshot t p sc m) = t"
  by (simp add: collectedAtOf_def buildSnapshot_def)

lemma handler_reaches_write:
  assumes m: "rq_method req \<noteq> ''OPTIONS''" and a: "\<not> unauthorized e req"
    and db: "env_DATABASE_URL e \<noteq> None" "env_DATABASE_URL e \<noteq> Some []"
    and pv: "parseVaultData raw = Inr p"
  shows "\<exists>st' body. handler e req (Inr raw) mf ck st = (st', CollectOk body)
           \<and> cb_success body
           \<and> (cb_skipped body \<longleftrightarrow> hourTaken (st_rows st) (ck_snapshot ck))
           \<and> hourTaken (st_rows st') (ck_snapshot ck)"
proof -
  define mc where "mc = (case mf of
      Inl _ \<Rightarrow> \<lparr>mc_fundingRate = 0, mc_openInterest = 0, mc_volume24h = 0\<rparr> | Inr m \<Rightarrow> m)"
  define ts where "ts = computeTrailingSignals
      (Some (getSnapshots st (ck_read ck) ''30d'' ''hourly'')) (pv_currentNav p) (ck_signals ck)"
  define sc where "sc = computeSignalScores
      \<lparr>an_currentDrawdown = pv_currentDrawdown p, an_apr = Some (pv_apr p),
       an_fundingRate = Some (mc_fundingRate mc), an_tvlScore = Some (tr_tvlScore ts),
       an_momentumScore = Some (tr_momentumScore ts), an_volScore = Some (tr_volScore ts),
       an_oiScore = tr_oiScore ts\<rparr>"
  define snap where "snap = buildSnapshot (ck_snapshot ck) p sc mc"
  obtain st1 inserted where ins: "insertSnapshot st (ck_snapshot ck) snap = (st1, inserted)"
    by (cases "insertSnapshot st (ck_snapshot ck) snap")
  obtain st2 gapFilled where gf:
    "(if getUTCHours (ck_hour ck) = 0 then gapFill (ck_snapshot ck) raw st1 else (st1, 0))
       = (st2, gapFilled)"
    by (cases "if getUTCHours (ck_hour ck) = 0 then gapFill (ck_snapshot ck) raw st1 else (st1, 0)")
  define body where "body =
      \<lparr>cb_success = True,
       cb_snapshot = (case inserted of None \<Rightarrow> Inr snap | Some r \<Rightarrow> Inl r),
       cb_skipped = (inserted = None), cb_gapFilled = gapFilled\<rparr>"
  have h: "handler e req (Inr raw) mf ck st = (st2, CollectOk body)"
    using m a db pv ins[unfolded snap_def sc_def ts_def mc_def] gf
    unfolding body_def snap_def sc_def ts_def mc_def handler_def Let_def
    by simp
  have sk: "cb_skipped body \<longleftrightarrow> hourTaken (st_rows st) (ck_snapshot ck)"
    using insertSnapshot_result[of st "ck_snapshot ck" snap] ins
    by (simp add: body_def snap_def)
  have "hourTaken (st_rows st1) (ck_snapshot ck)"
    using insertSnapshot_hour_filled[of st "ck_snapshot ck" snap] ins by (simp add: snap_def)
  then have "hourTaken (st_rows st2) (ck_snapshot ck)"
    using gf gapFill_hour_kept[of st1 "ck_snapshot ck" "ck_snapshot ck" raw]
    by (auto split: if_splits)
  with h sk show ?thesis by (auto simp: body_def)
qed

lemma handler_collect_fills_hour:
  assumes "handler e req vf mf ck st = (st', CollectOk body)"
  shows "hourTaken (st_rows st') (ck_snapshot ck) \<and> cb_success body
         \<and> (cb_skipped body \<longleftrightarrow> hourTaken (st_rows st) (ck_snapshot ck))"
proof -
  from assms have m: "rq_method req \<noteq> ''OPTIONS''" and a: "\<not> unauthorized e req"
    and db: "env_DATABASE_URL e \<noteq> None" "env_DATABASE_URL e \<noteq> Some []"
    by (auto simp: handler_def split: if_splits)
  from assms m a db obtain raw where vf: "vf = Inr raw"
    by (cases vf) (auto simp: handler_def)
  from assms m a db vf obtain p where pv: "parseVaultData raw = Inr p"
    by (cases "parseVaultData raw") (auto simp: handler_def Let_def)
  from handler_reaches_write[OF m a db pv, of mf ck st] assms vf show ?thesis by auto
qed

lemma insertSnapshot_empty:
  "insertSnapshot emptyStore now data
     = (\<lparr>st_rows = [insertedRow 1 now data], st_seq = 1\<rparr>,
        Some (1, collectedAtOf now data))"
  by (simp add: insertSnapshot_def emptyStore_def hourTaken_def Let_def insertedRow_def)

lemma two_writes_same_hour:
  assumes inv: "distinct (map (\<lambda>r. hourOf (r_collected_at r)) (st_rows st))"
    and same: "hourOf (collectedAtOf now2 b) = hourOf (collectedAtOf now1 a)"
  shows "snd (insertSnapshot (fst (insertSnapshot st now1 a)) now2 b) = None"
    and "st_rows (fst (insertSnapshot (fst (insertSnapshot st now1 a)) now2 b))
           = st_rows (fst (insertSnapshot st now1 a))"
    and "length (filter (\<lambda>r. hourOf (r_collected_at r) = hourOf (collectedAtOf now1 a))
           (st_rows (fst (insertSnapshot (fst (insertSnapshot st now1 a)) now2 b)))) = 1"
    and "distinct (map (\<lambda>r. hourOf (r_collected_at r))
           (st_rows (fst (insertSnapshot (fst (insertSnapshot st now1 a)) now2 b))))"
proof -
  define st1 where "st1 = fst (insertSnapshot st now1 a)"
  have filled: "hourTaken (st_rows st1) (collectedAtOf now1 a)"
    unfolding st1_def by (rule insertSnapshot_hour_filled)
  then have taken: "hourTaken (st_rows st1) (collectedAtOf now2 b)"
    using hourTaken_same_hour[OF same] by simp
  have d1: "distinct (map (\<lambda>r. hourOf (r_collected_at r)) (st_rows st1))"
    unfolding st1_def by (rule insertSnapshot_unique[OF inv])
  note second = insertSnapshot_taken[OF taken]
  have rows1: "st_rows (fst (insertSnapshot st1 now2 b)) = st_rows st1"
    by (simp add: second)
  show "snd (insertSnapshot (fst (insertSnapshot st now1 a)) now2 b) = None"
    unfolding st1_def[symmetric] second by simp
  show "st_rows (fst (insertSnapshot (fst (insertSnapshot st now1 a)) now2 b))
           = st_rows (fst (insertSnapshot st now1 a))"
    unfolding st1_def[symmetric] second by simp
  show "length (filter (\<lambda>r. hourOf (r_collected_at r) = hourOf (collectedAtOf now1 a))
           (st_rows (fst (insertSnapshot (fst (insertSnapshot st now1 a)) now2 b)))) = 1"
    unfolding st1_def[symmetric] rows1 by (rule one_row_of_hour[OF d1 filled])
  show "distinct (map (\<lambda>r. hourOf (r_collected_at r))
           (st_rows (fst (insertSnapshot (fst (insertSnapshot st now1 a)) now2 b))))"
    unfolding st1_def[symmetric] rows1 by (rule d1)
qed

lemma two_writes_empty_store:
  assumes same: "hourOf (collectedAtOf now2 b) = hourOf (collectedAtOf now1 a)"
  shows "st_rows (fst (insertSnapshot (fst (insertSnapshot emptyStore now1 a)) now2 b))
           = [insertedRow 1 now1 a]"
proof -
  have "distinct (map (\<lambda>r. hourOf (r_collected_at r)) (st_rows emptyStore))"
    by (simp add: emptyStore_def)
  from two_writes_same_hour(2)[OF this same] show ?thesis
    by (simp add: insertSnapshot_empty)
qed

lemma second_collect_skipped:
  assumes first: "handler e req vf mf ck st = (st1, CollectOk body1)"
    and same: "hourOf (ck_snapshot ck') = hourOf (ck_snapshot ck)"
    and m: "rq_method req' \<noteq> ''OPTIONS''" and a: "\<not> unauthorized e' req'"
    and db: "env_DATABASE_URL e' \<noteq> None" "env_DATABASE_URL e' \<noteq> Some []"
    and pv: "\<exists>p. parseVaultData raw' = Inr p"
  shows "\<exists>st2 body2. handler e' req' (Inr raw') mf' ck' st1 = (st2, CollectOk body2)
           \<and> cb_success body2 \<and> cb_skipped body2"
proof -
  from handler_collect_fills_hour[OF first]
  have "hourTaken (st_rows st1) (ck_snapshot ck)" by simp
  then have t: "hourTaken (st_rows st1) (ck_snapshot ck')"
    using hourTaken_same_hour[OF same] by simp
  from pv obtain p where p: "parseVaultData raw' = Inr p" by blast
  from handler_reaches_write[OF m a db p, of mf' ck' st1] t show ?thesis by auto
qed

text \<open>
  Claim C4. On a table with at most one row per UTC hour, writing two snapshots whose
  \<^verbatim>\<open>collected_at\<close> fall in the same UTC hour leaves exactly one row of that
  hour: the second write returns \<^verbatim>\<open>null\<close>, raises nothing and leaves the
  rows as they were (from the empty table, the one row is the first snapshot's). A run
  of the ingestion handler that reaches the write in an hour a former run has written
  answers with \<open>success = true\<close> and \<open>skipped = true\<close>.
\<close>

theorem same_hour_write_is_skipped:
  assumes inv: "distinct (map (\<lambda>r. hourOf (r_collected_at r)) (st_rows st))"
    and same: "hourOf (collectedAtOf now2 b) = hourOf (collectedAtOf now1 a)"
  shows "snd (insertSnapshot (fst (insertSnapshot st now1 a)) now2 b) = None
       \<and> st_rows (fst (insertSnapshot (fst (insertSnapshot st now1 a)) now2 b))
           = st_rows (fst (insertSnapshot st now1 a))
       \<and> length (filter (\<lambda>r. hourOf (r_collected_at r) = hourOf (collectedAtOf now1 a))
           (st_rows (fst (insertSnapshot (fst (insertSnapshot st now1 a)) now2 b)))) = 1
       \<and> distinct (map (\<lambda>r. hourOf (r_collected_at r))
           (st_rows (fst (insertSnapshot (fst (insertSnapshot st now1 a)) now2 b))))
       \<and> st_rows (fst (insertSnapshot (fst (insertSnapshot emptyStore now1 a)) now2 b))
           = [insertedRow 1 now1 a]
       \<and> (\<forall>st1 body1.
             handler e req vf mf ck st = (st1, CollectOk body1) \<longrightarrow>
             hourOf (ck_snapshot ck') = hourOf (ck_snapshot ck) \<longrightarrow>
             rq_method req' \<noteq> ''OPTIONS'' \<longrightarrow> \<not> unauthorized e' req' \<longrightarrow>
             env_DATABASE_URL e' \<noteq> None \<longrightarrow> env_DATABASE_URL e' \<noteq> Some [] \<longrightarrow>
             (\<exists>p. parseVaultData raw' = Inr p) \<longrightarrow>
             (\<exists>st2 body2. handler e' req' (Inr raw') mf' ck' st1 = (st2, CollectOk body2)
                \<and> cb_success body2 \<and> cb_skipped body2))"
proof -
  have h: "\<forall>st1 body1.
             handler e req vf mf ck st = (st1, CollectOk body1) \<longrightarrow>
             hourOf (ck_snapshot ck') = hourOf (ck_snapshot ck) \<longrightarrow>
             rq_method req' \<noteq> ''OPTIONS'' \<longrightarrow> \<not> unauthorized e' req' \<longrightarrow>
             env_DATABASE_URL e' \<noteq> None \<longrightarrow> env_DATABASE_URL e' \<noteq> Some [] \<longrightarrow>
             (\<exists>p. parseVaultData raw' = Inr p) \<longrightarrow>
             (\<exists>st2 body2. handler e' req' (Inr raw') mf' ck' st1 = (st2, CollectOk body2)
                \<and> cb_success body2 \<and> cb_skipped body2)"
    by (intro allI impI second_collect_skipped)
  show ?thesis
    by (intro conjI two_writes_same_hour[OF inv same] two_writes_empty_store[OF same] h)
qed

theorem same_hour_write_is_skipped_witness:
  "snd (insertSnapshot (fst (insertSnapshot emptyStore 0 example_snapshot)) 0
          (example_snapshot\<lparr>s_collected_at := Some 7199999, s_nav := 101\<rparr>)) = None
   \<and> length (st_rows (fst (insertSnapshot (fst (insertSnapshot emptyStore 0 example_snapshot)) 0
          (example_snapshot\<lparr>s_collected_at := Some 7199999, s_nav := 101\<rparr>)))) = 1
   \<and> (\<exists>st1 body1 st2 body2.
         handler example_env example_request (Inr example_payload) (Inl ''down'')
           (example_clock 3600000) emptyStore = (st1, CollectOk body1)
       \<and> \<not> cb_skipped body1
       \<and> handler example_env example_request (Inr example_payload) (Inl ''down'')
           (example_clock 7199999) st1 = (st2, CollectOk body2)
       \<and> cb_success body2 \<and> cb_skipped body2)"
proof -
  let ?b = "example_snapshot\<lparr>s_collected_at := Some 7199999, s_nav := 101\<rparr>"
  have inv: "distinct (map (\<lambda>r. hourOf (r_collected_at r)) (st_rows emptyStore))"
    by (simp add: emptyStore_def)
  have same: "hourOf (collectedAtOf 0 ?b) = hourOf (collectedAtOf 0 example_snapshot)"
    by (simp add: collectedAtOf_def example_snapshot_def hourOf_def)
  have m: "rq_method example_request \<noteq> ''OPTIONS''" by (simp add: example_request_def)
  have a: "\<not> unauthorized example_env example_request"
    by (simp add: unauthorized_def example_env_def)
  have db: "env_DATABASE_URL example_env \<noteq> None" "env_DATABASE_URL example_env \<noteq> Some []"
    by (simp_all add: example_env_def)
  from example_parse have pv: "\<exists>p. parseVaultData example_payload = Inr p" by blast
  then obtain p where p: "parseVaultData example_payload = Inr p" by blast
  from handler_reaches_write[OF m a db p, of "Inl ''down''" "example_clock 3600000" emptyStore]
  obtain st1 body1 where first:
    "handler example_env example_request (Inr example_payload) (Inl ''down'')
       (example_clock 3600000) emptyStore = (st1, CollectOk body1)"
    and nsk: "\<not> cb_skipped body1"
    by (auto simp: emptyStore_def hourTaken_def)
  have hr: "hourOf (ck_snapshot (example_clock 7199999)) = hourOf (ck_snapshot (example_clock 3600000))"
    by (simp add: example_clock_def hourOf_def)
  note t = same_hour_write_is_skipped[OF inv same,
      of example_env example_request "Inr example_payload" "Inl ''down''" "example_clock 3600000"
         "example_clock 7199999" example_request example_env example_payload "Inl ''down''"]
  from t have w1: "snd (insertSnapshot (fst (insertSnapshot emptyStore 0 example_snapshot)) 0 ?b) = None"
    by (rule conjunct1)
  from t have "st_rows (fst (insertSnapshot (fst (insertSnapshot emptyStore 0 example_snapshot)) 0 ?b))
      = [insertedRow 1 0 example_snapshot]"
    by (elim conjE)
  then have w2: "length (st_rows (fst (insertSnapshot (fst (insertSnapshot emptyStore 0
      example_snapshot)) 0 ?b))) = 1" by simp
  from t have "\<forall>st1 body1.
      handler example_env example_request (Inr example_payload) (Inl ''down'')
        (example_clock 3600000) emptyStore = (st1, CollectOk body1) \<longrightarrow>
      hourOf (ck_snapshot (example_clock 7199999)) = hourOf (ck_snapshot (example_clock 3600000)) \<longrightarrow>
      rq_method example_request \<noteq> ''OPTIONS'' \<longrightarrow> \<not> unauthorized example_env example_request \<longrightarrow>
      env_DATABASE_URL example_env \<noteq> None \<longrightarrow> env_DATABASE_URL example_env \<noteq> Some [] \<longrightarrow>
      (\<exists>p. parseVaultData example_payload = Inr p) \<longrightarrow>
      (\<exists>st2 body2. handler example_env example_request (Inr example_payload) (Inl ''down'')
            (example_clock 7199999) st1 = (st2, CollectOk body2)
          \<and> cb_success body2 \<and> cb_skipped body2)"
    by (elim conjE)
  with first hr m a db pv obtain st2 body2 where
    "handler example_env example_request (Inr example_payload) (Inl ''down'')
       (example_clock 7199999) st1 = (st2, CollectOk body2)"
    "cb_success body2" "cb_skipped body2"
    by blast
  with first nsk have "\<exists>st1 body1 st2 body2.
         handler example_env example_request (Inr example_payload) (Inl ''down'')
           (example_clock 3600000) emptyStore = (st1, CollectOk body1)
       \<and> \<not> cb_skipped body1
       \<and> handler example_env example_request (Inr example_payload) (Inl ''down'')
           (example_clock 7199999) st1 = (st2, CollectOk body2)
       \<and> cb_success body2 \<and> cb_skipped body2"
    by blast
  with w1 w2 show ?thesis by (intro conjI)
qed

section \<open>The columns that are written (C5)\<close>

lemma insertedRow_market_context:
  "r_funding_rate (insertedRow newId now data) = None"
  "r_open_interest (insertedRow newId now data) = None"
  "r_volume_24h (insertedRow newId now data) = None"
  "r_funding_score (insertedRow newId now data) = None"
  "r_oi_score (insertedRow newId now data) = None"
  by (simp_all add: insertedRow_def)

lemma buildSnapshot_market_context:
  "s_funding_rate (buildSnapshot t p sc m) = Some (mc_fundingRate m)"
  "s_open_interest (buildSnapshot t p sc m) = Some (mc_openInterest m)"
  "s_volume_24h (buildSnapshot t p sc m) = Some (mc_volume24h m)"
  "s_funding_score (buildSnapshot t p sc m) = Some (sc_fundingScore sc)"
  "s_oi_score (buildSnapshot t p sc m) = Some (sc_oiScore sc)"
  by (simp_all add: buildSnapshot_def)

lemma example_insert_market_context:
  "map (\<lambda>r. (r_funding_rate r, r_open_interest r, r_volume_24h r, r_funding_score r,
                 r_oi_score r))
         (st_rows (fst (insertSnapshot emptyStore 0 example_snapshot)))
       = [(None, None, None, None, None)]"
  by (simp add: insertSnapshot_empty insertedRow_market_context)


text \<open>
  Claim C5. The row that \<^verbatim>\<open>insertSnapshot\<close> writes has NULL in
  \<^verbatim>\<open>funding_rate\<close>, \<^verbatim>\<open>open_interest\<close>, \<^verbatim>\<open>volume_24h\<close>,
  \<^verbatim>\<open>funding_score\<close> and \<^verbatim>\<open>oi_score\<close> whatever the snapshot holds,
  and the snapshot the handler builds does hold all five.
\<close>

theorem insertSnapshot_drops_market_context:
  "r_funding_rate (insertedRow newId now data) = None
   \<and> r_open_interest (insertedRow newId now data) = None
   \<and> r_volume_24h (insertedRow newId now data) = None
   \<and> r_funding_score (insertedRow newId now data) = None
   \<and> r_oi_score (insertedRow newId now data) = None
   \<and> s_funding_rate (buildSnapshot t p sc m) = Some (mc_fundingRate m)
   \<and> s_open_interest (buildSnapshot t p sc m) = Some (mc_openInterest m)
   \<and> s_volume_24h (buildSnapshot t p sc m) = Some (mc_volume24h m)
   \<and> s_funding_score (buildSnapshot t p sc m) = Some (sc_fundingScore sc)
   \<and> s_oi_score (buildSnapshot t p sc m) = Some (sc_oiScore sc)
   \<and> map (\<lambda>r. (r_funding_rate r, r_open_interest r, r_volume_24h r, r_funding_score r,
                 r_oi_score r))
         (st_rows (fst (insertSnapshot emptyStore 0 example_snapshot)))
       = [(None, None, None, None, None)]"
  by (intro conjI insertedRow_market_context buildSnapshot_market_context
        example_insert_market_context)

section \<open>The daily aggregate (C6)\<close>

lemma dayOf_day_start [simp]: "dayOf (d * 86400000) = d"
  by (simp add: dayOf_def)

lemma daysOf_props:
  "sorted (daysOf rows)" "distinct (daysOf rows)"
  "set (daysOf rows) = (\<lambda>r. dayOf (r_collected_at r)) ` set rows"
  by (simp_all add: daysOf_def)


lemma dailyAggregate_length:
  "length (dailyAggregate rows) = card ((\<lambda>r. dayOf (r_collected_at r)) ` set rows)"
proof -
  have "length (dailyAggregate rows) = length (daysOf rows)"
    by (simp add: dailyAggregate_def)
  also have "\<dots> = card (set (daysOf rows))"
    by (simp add: distinct_card daysOf_props(2))
  finally show ?thesis by (simp add: daysOf_props(3))
qed


lemma getSnapshots_daily:
  "effectiveResolution rng resolution = ''daily'' \<Longrightarrow>
   getSnapshots st now rng resolution
     = dailyAggregate (sinceCutoff (cutoffOf now rng) (st_rows st))"
  by (cases "cutoffOf now rng") (simp_all add: getSnapshots_def Let_def sinceCutoff_def)

lemma getSnapshots_hourly:
  "effectiveResolution rng resolution \<noteq> ''daily'' \<Longrightarrow>
   getSnapshots st now rng resolution
     = sort_key r_collected_at (sinceCutoff (cutoffOf now rng) (st_rows st))"
  by (cases "cutoffOf now rng") (simp_all add: getSnapshots_def Let_def sinceCutoff_def)

lemma nonNull_Some [simp]: "nonNull (map Some vs) = vs"
  by (induction vs) (simp_all add: nonNull_def)



















section \<open>Sub-scores of unknown inputs (C7)\<close>

lemma unknown_inputs:
  "sc_aprScore (computeSignalScores (a\<lparr>an_apr := None\<rparr>)) = 90"
  "sc_fundingScore (computeSignalScores (a\<lparr>an_fundingRate := None\<rparr>)) = 45"
  "sc_tvlScore (computeSignalScores (a\<lparr>an_tvlScore := None\<rparr>)) = 50"
  "sc_momentumScore (computeSignalScores (a\<lparr>an_momentumScore := None\<rparr>)) = 50"
  "sc_volScore (computeSignalScores (a\<lparr>an_volScore := None\<rparr>)) = 50"
  "sc_oiScore (computeSignalScores (a\<lparr>an_oiScore := None\<rparr>)) = 50"
  by (simp_all add: computeSignalScores_fields orZero_def orNeutral_def aprScoreOf_def
        fundingScoreOf_def)

lemma example_analytics_scores:
  "computeSignalScores example_analytics
       = \<lparr>sc_composite = 40, sc_ddScore = 5, sc_tvlScore = 50, sc_momentumScore = 50,
          sc_volScore = 50, sc_aprScore = 90, sc_fundingScore = 45, sc_oiScore = 50\<rparr>"
  by (simp add: computeSignalScores_def example_analytics_def Let_def orZero_def orNeutral_def
        aprScoreOf_def fundingScoreOf_def ddScoreOf_def compositeOf_def weightedSum_def
        mathRound_def)

lemma seedScores_None_iff:
  "seedScores allSnaps row = None \<longleftrightarrow>
     length (filter (\<lambda>s. r_collected_at s \<ge> r_collected_at row - thirtyDays
                          \<and> r_collected_at s \<le> r_collected_at row) allSnaps) < 2"
  by (simp add: seedScores_def Let_def)

lemma seedScores_unknown_apr:
  "(case seedScores allSnaps (row\<lparr>r_apr := None\<rparr>) of
         None \<Rightarrow> True
       | Some sc \<Rightarrow> sc_aprScore sc = 50 \<and> sc_fundingScore sc = 50 \<and> sc_oiScore sc = 50)"
proof (cases "seedScores allSnaps (row\<lparr>r_apr := None\<rparr>)")
  case None
  then show ?thesis by simp
next
  case (Some sc)
  from seedScores_neutral[OF Some] Some show ?thesis by simp
qed

lemma seedScores_example:
  "map_option (\<lambda>sc. (sc_aprScore sc, sc_fundingScore sc, sc_oiScore sc))
         (seedScores [example_row 0 100, example_row 3600000 101] (example_row 3600000 101))
       = Some (50, 50, 50)"
proof -
  have "seedScores [example_row 0 100, example_row 3600000 101] (example_row 3600000 101) \<noteq> None"
    unfolding seedScores_None_iff by (simp add: example_row_def thirtyDays_def)
  then obtain sc where
    sc: "seedScores [example_row 0 100, example_row 3600000 101] (example_row 3600000 101) = Some sc"
    by blast
  from seedScores_neutral[OF sc] have "sc_aprScore sc = 50 \<and> sc_fundingScore sc = 50 \<and> sc_oiScore sc = 50"
    by (simp add: example_row_def)
  with sc show ?thesis by simp
qed


text \<open>
  Claim C7. In \<^verbatim>\<open>computeSignalScores\<close> an absent APR scores 90 and an absent
  funding rate scores 45, not the neutral 50; the four trailing sub-scores default to 50
  when absent. The seed script's score backfill gives 50 for an unknown APR and 50 for
  the funding and open-interest scores.
\<close>

theorem computeSignalScores_unknown_apr_funding_not_neutral:
  "sc_aprScore (computeSignalScores (a\<lparr>an_apr := None\<rparr>)) = 90
   \<and> sc_fundingScore (computeSignalScores (a\<lparr>an_fundingRate := None\<rparr>)) = 45
   \<and> computeSignalScores example_analytics
       = \<lparr>sc_composite = 40, sc_ddScore = 5, sc_tvlScore = 50, sc_momentumScore = 50,
          sc_volScore = 50, sc_aprScore = 90, sc_fundingScore = 45, sc_oiScore = 50\<rparr>
   \<and> sc_tvlScore (computeSignalScores (a\<lparr>an_tvlScore := None\<rparr>)) = 50
   \<and> sc_momentumScore (computeSignalScores (a\<lparr>an_momentumScore := None\<rparr>)) = 50
   \<and> sc_volScore (computeSignalScores (a\<lparr>an_volScore := None\<rparr>)) = 50
   \<and> sc_oiScore (computeSignalScores (a\<lparr>an_oiScore := None\<rparr>)) = 50
   \<and> (case seedScores allSnaps (row\<lparr>r_apr := None\<rparr>) of
         None \<Rightarrow> True
       | Some sc \<Rightarrow> sc_aprScore sc = 50 \<and> sc_fundingScore sc = 50 \<and> sc_oiScore sc = 50)
   \<and> map_option (\<lambda>sc. (sc_aprScore sc, sc_fundingScore sc, sc_oiScore sc))
         (seedScores [example_row 0 100, example_row 3600000 101] (example_row 3600000 101))
       = Some (50, 50, 50)"
  by (intro conjI unknown_inputs example_analytics_scores seedScores_unknown_apr
        seedScores_example)

section \<open>What the trailing signals depend on (C8)\<close>

lemma example_trailing_tvl:
  "tr_tvlScore (computeTrailingSignals (Some example_trailing) 200 172800000) = 10"
  "tr_tvlScore (computeTrailingSignals (Some example_trailing) 200 608400000) = 55"
  by (simp_all add: computeTrailingSignals_def example_trailing_def example_row_def Let_def
        sevenDays_def tvl7Of_def tvlScoreOf_def)


text \<open>
  Claim C8, as stated, fails: with the same history and the same current NAV, two clock
  readings give two results.
\<close>

theorem trailing_signals_differ_with_clock:
  "computeTrailingSignals (Some example_trailing) 200 172800000
     \<noteq> computeTrailingSignals (Some example_trailing) 200 608400000"
proof
  assume "computeTrailingSignals (Some example_trailing) 200 172800000
     = computeTrailingSignals (Some example_trailing) 200 608400000"
  then have "tr_tvlScore (computeTrailingSignals (Some example_trailing) 200 172800000)
     = tr_tvlScore (computeTrailingSignals (Some example_trailing) 200 608400000)" by simp
  then show False unfolding example_trailing_tvl by simp
qed

lemma trailing_momentum_vol:
  "tr_momentumScore (computeTrailingSignals snaps currentNav now)
     = tr_momentumScore (computeTrailingSignals snaps currentNav' now')"
  "tr_volScore (computeTrailingSignals snaps currentNav now)
     = tr_volScore (computeTrailingSignals snaps currentNav' now')"
  by (simp_all add: computeTrailingSignals_def Let_def split: option.splits)

lemma oiTrendScore_same_window:
  assumes "filter (\<lambda>s. r_collected_at s \<ge> now - sevenDays) ss
         = filter (\<lambda>s. r_collected_at s \<ge> now' - sevenDays) ss"
  shows "oiTrendScore ss now = oiTrendScore ss now'"
proof -
  have "filter (\<lambda>s. r_collected_at s \<ge> now - sevenDays) (filter hasOI ss)
      = filter hasOI (filter (\<lambda>s. r_collected_at s \<ge> now - sevenDays) ss)"
    by (simp add: conj_commute)
  also have "\<dots> = filter hasOI (filter (\<lambda>s. r_collected_at s \<ge> now' - sevenDays) ss)"
    by (simp only: assms)
  also have "\<dots> = filter (\<lambda>s. r_collected_at s \<ge> now' - sevenDays) (filter hasOI ss)"
    by (simp add: conj_commute)
  finally show ?thesis by (simp add: oiTrendScore_def Let_def)
qed

lemma trailing_same_window:
  assumes "filter (\<lambda>s. r_collected_at s \<ge> now - sevenDays) ss
         = filter (\<lambda>s. r_collected_at s \<ge> now' - sevenDays) ss"
  shows "computeTrailingSignals (Some ss) currentNav now
       = computeTrailingSignals (Some ss) currentNav now'"
  using assms oiTrendScore_same_window[OF assms]
  by (simp add: computeTrailingSignals_def Let_def)


text \<open>
  Claim C8, amended. \<^verbatim>\<open>computeTrailingSignals\<close> is a function of the history,
  the current NAV and the clock reading \<open>now\<close>: two calls with the same history
  and current NAV return the same object whenever their clock readings select the same
  rows as the trailing seven days; the momentum and volatility sub-scores depend on the
  history alone.
\<close>

theorem trailing_signals_function_of_history_nav_clock:
  assumes "filter (\<lambda>s. r_collected_at s \<ge> now - sevenDays) ss
         = filter (\<lambda>s. r_collected_at s \<ge> now' - sevenDays) ss"
  shows "computeTrailingSignals (Some ss) currentNav now
           = computeTrailingSignals (Some ss) currentNav now'
       \<and> tr_momentumScore (computeTrailingSignals snaps nav1 t1)
           = tr_momentumScore (computeTrailingSignals snaps nav2 t2)
       \<and> tr_volScore (computeTrailingSignals snaps nav1 t1)
           = tr_volScore (computeTrailingSignals snaps nav2 t2)
       \<and> computeTrailingSignals None nav1 t1 = computeTrailingSignals None nav2 t2"
proof -
  have "computeTrailingSignals None nav1 t1 = computeTrailingSignals None nav2 t2"
    by (simp add: computeTrailingSignals_def)
  with trailing_same_window[OF assms] trailing_momentum_vol show ?thesis by (intro conjI)
qed

theorem trailing_signals_function_of_history_nav_clock_witness:
  "computeTrailingSignals (Some example_trailing) 200 172800000
     = computeTrailingSignals (Some example_trailing) 200 259200000"
proof -
  have w: "filter (\<lambda>s. r_collected_at s \<ge> 172800000 - sevenDays) example_trailing
         = filter (\<lambda>s. r_collected_at s \<ge> 259200000 - sevenDays) example_trailing"
    by (simp add: example_trailing_def example_row_def sevenDays_def)
  from trailing_signals_function_of_history_nav_clock[OF w, of 200] show ?thesis
    by (rule conjunct1)
qed

section \<open>Zero and NULL in the write (C10)\<close>









section \<open>Row counts by range (C9)\<close>

lemma example_week_times:
  "map r_collected_at (st_rows example_week_store) = [0, 694800000, 698400000, 702000000]"
  by (simp add: example_week_store_def example_row_def)

lemma length_filter_mono:
  "(\<And>x. x \<in> set xs \<Longrightarrow> P x \<Longrightarrow> Q x) \<Longrightarrow> length (filter P xs) \<le> length (filter Q xs)"
  by (induction xs) auto

lemma card_days_mono:
  "set xs \<subseteq> set ys \<Longrightarrow> length (dailyAggregate xs) \<le> length (dailyAggregate ys)"
  unfolding dailyAggregate_length by (intro card_mono image_mono) simp_all

lemma getSnapshots_length:
  "resolution \<noteq> ''auto'' \<Longrightarrow>
   length (getSnapshots st now rng resolution)
     = (if resolution = ''daily''
        then length (dailyAggregate (sinceCutoff (cutoffOf now rng) (st_rows st)))
        else length (sinceCutoff (cutoffOf now rng) (st_rows st)))"
  by (simp add: getSnapshots_daily getSnapshots_hourly effectiveResolution_def)

lemma sinceCutoff_set:
  "set (sinceCutoff (Some c) rows) = {r \<in> set rows. c \<le> r_collected_at r}"
  "set (sinceCutoff None rows) = set rows"
  by (auto simp: sinceCutoff_def)

lemma cutoffOf_values:
  "cutoffOf now ''24h'' = Some (now - 86400000)"
  "cutoffOf now ''7d'' = Some (now - 604800000)"
  "cutoffOf now ''all'' = None"
  by (simp_all add: cutoffOf_def)

lemma example_week_counts:
  "length (getSnapshots example_week_store 705600000 ''all'' ''auto'') = 2"
  "length (getSnapshots example_week_store 705600000 ''7d'' ''auto'') = 3"
proof -
  have d: "effectiveResolution ''all'' ''auto'' = ''daily''"
    and h: "effectiveResolution ''7d'' ''auto'' \<noteq> ''daily''"
    by (simp_all add: effectiveResolution_def)
  have "map (\<lambda>r. dayOf (r_collected_at r)) (st_rows example_week_store) = [0, 8, 8, 8]"
    by (simp add: example_week_store_def example_row_def dayOf_def)
  then have "set (map (\<lambda>r. dayOf (r_collected_at r)) (st_rows example_week_store)) = {0, 8}"
    by simp
  then have "(\<lambda>r. dayOf (r_collected_at r)) ` set (st_rows example_week_store) = {0, 8}"
    by (simp only: set_map)
  then show "length (getSnapshots example_week_store 705600000 ''all'' ''auto'') = 2"
    unfolding getSnapshots_daily[OF d] cutoffOf_values sinceCutoff_def dailyAggregate_length
    by simp
  show "length (getSnapshots example_week_store 705600000 ''7d'' ''auto'') = 3"
    unfolding getSnapshots_hourly[OF h] cutoffOf_values
    by (simp add: sinceCutoff_def example_week_store_def example_row_def)
qed

lemma range_counts_step:
  assumes sub: "set (sinceCutoff c1 rows) \<subseteq> set (sinceCutoff c2 rows)"
    and len: "length (sinceCutoff c1 rows) \<le> length (sinceCutoff c2 rows)"
  shows "(if resolution = ''daily'' then length (dailyAggregate (sinceCutoff c1 rows))
          else length (sinceCutoff c1 rows))
       \<le> (if resolution = ''daily'' then length (dailyAggregate (sinceCutoff c2 rows))
          else length (sinceCutoff c2 rows))"
  using card_days_mono[OF sub] len by simp

lemma sinceCutoff_later:
  assumes "c2 \<le> c1"
  shows "set (sinceCutoff (Some c1) rows) \<subseteq> set (sinceCutoff (Some c2) rows)"
    and "length (sinceCutoff (Some c1) rows) \<le> length (sinceCutoff (Some c2) rows)"
  using assms by (auto simp: sinceCutoff_def intro!: length_filter_mono)

lemma sinceCutoff_all:
  "set (sinceCutoff c rows) \<subseteq> set (sinceCutoff None rows)"
  "length (sinceCutoff c rows) \<le> length (sinceCutoff None rows)"
  by (cases c; simp add: sinceCutoff_def)+

text \<open>
  Claim C9, as stated, fails for the resolution \<^verbatim>\<open>auto\<close>: on a table of one
  row on day 0 and three rows on day 8, read in the fourth hour of day 8, the range
  \<^verbatim>\<open>all\<close> gives the two daily rows and the range \<^verbatim>\<open>7d\<close> the three
  hourly rows.
\<close>

theorem range_counts_not_monotone_under_auto:
  "length (getSnapshots example_week_store 705600000 ''all'' ''auto'')
     < length (getSnapshots example_week_store 705600000 ''7d'' ''auto'')"
  unfolding example_week_counts by simp

text \<open>
  Claim C9, amended. For a resolution other than \<^verbatim>\<open>auto\<close> (\<^verbatim>\<open>hourly\<close>
  or \<^verbatim>\<open>daily\<close>), and reads whose 7-day cutoff is not later than their 24-hour
  cutoff (as for reads at one time), the number of rows returned for
  \<^verbatim>\<open>all\<close> is at least that for \<^verbatim>\<open>7d\<close>, which is at least that for
  \<^verbatim>\<open>24h\<close>. Under \<^verbatim>\<open>auto\<close> the count for \<^verbatim>\<open>7d\<close> is at
  least that for \<^verbatim>\<open>24h\<close>.
\<close>

theorem range_counts_monotone:
  assumes res: "resolution \<noteq> ''auto''"
    and clock: "n7 - 604800000 \<le> n24 - 86400000"
  shows "length (getSnapshots st n24 ''24h'' resolution)
           \<le> length (getSnapshots st n7 ''7d'' resolution)
       \<and> length (getSnapshots st n7 ''7d'' resolution)
           \<le> length (getSnapshots st nall ''all'' resolution)
       \<and> length (getSnapshots st n24 ''24h'' ''auto'')
           \<le> length (getSnapshots st n7 ''7d'' ''auto'')"
proof -
  have a: "length (getSnapshots st n24 ''24h'' resolution)
           \<le> length (getSnapshots st n7 ''7d'' resolution)"
    unfolding getSnapshots_length[OF res] cutoffOf_values
    by (rule range_counts_step[OF sinceCutoff_later[OF clock]])
  have b: "length (getSnapshots st n7 ''7d'' resolution)
           \<le> length (getSnapshots st nall ''all'' resolution)"
    unfolding getSnapshots_length[OF res] cutoffOf_values
    by (rule range_counts_step[OF sinceCutoff_all])
  have h: "effectiveResolution ''24h'' ''auto'' \<noteq> ''daily''"
    "effectiveResolution ''7d'' ''auto'' \<noteq> ''daily''"
    by (simp_all add: effectiveResolution_def)
  have c: "length (getSnapshots st n24 ''24h'' ''auto'')
           \<le> length (getSnapshots st n7 ''7d'' ''auto'')"
    unfolding getSnapshots_hourly[OF h(1)] getSnapshots_hourly[OF h(2)] cutoffOf_values
    using sinceCutoff_later(2)[OF clock] by simp
  from a b c show ?thesis by (intro conjI)
qed

theorem range_counts_monotone_witness:
  "length (getSnapshots example_week_store 705600000 ''24h'' ''daily'')
     \<le> length (getSnapshots example_week_store 705600000 ''7d'' ''daily'')
   \<and> length (getSnapshots example_week_store 705600000 ''7d'' ''daily'')
     \<le> length (getSnapshots example_week_store 705600000 ''all'' ''daily'')"
proof -
  have res: "''daily'' \<noteq> ''auto''" by simp
  have clock: "(705600000 :: int) - 604800000 \<le> 705600000 - 86400000" by simp
  note t = range_counts_monotone[OF res clock, of example_week_store 705600000]
  from t[THEN conjunct1] t[THEN conjunct2, THEN conjunct1] show ?thesis by (intro conjI)
qed

end
